theory Spec2Isabelle
  imports Main
begin

section \<open>LightSPA (hugo-spa.js): the navigation and history state machine\<close>

text \<open>
  The class \<^verbatim>\<open>LightSPA\<close> of \<^verbatim>\<open>src/hugo-spa.js\<close> is embedded as functions on one state
  record. The record holds the fields of the object (\<^verbatim>\<open>config\<close>, \<^verbatim>\<open>mainContent\<close>,
  \<^verbatim>\<open>navigationElements\<close>, \<^verbatim>\<open>searchResults\<close>, \<^verbatim>\<open>currentIndex\<close>) and the part of the browser the
  methods read and write: the elements the object refers to, the document title, the
  scroll offset, \<^verbatim>\<open>window.location\<close>, the session history, the registered listeners, and
  two logs (the requests passed to \<^verbatim>\<open>fetch\<close> and the \<^verbatim>\<open>spaContentUpdated\<close> events
  dispatched on the document).

  Conventions.
  \<^item> An element reference is a number; the element's properties live in a store
    \<open>elements\<close> indexed by references, so that assigning to \<^verbatim>\<open>innerHTML\<close> or
    \<^verbatim>\<open>style.opacity\<close> changes the store and never the reference.
  \<^item> A method that can throw (or an \<^verbatim>\<open>async\<close> method whose promise can reject) returns a
    pair: \<open>Some err\<close> and the state at the throw, or \<open>None\<close> and the final state.
  \<^item> An \<^verbatim>\<open>async\<close> method runs as one step: the interleaving of two navigations in
    flight is not modelled.
  \<^item> The network, the HTML parser and the selector engine are parameters (record
    \<open>env\<close>). The answer of \<^verbatim>\<open>fetch\<close> may depend on the requests made so far.
  \<^item> URLs are the serialised absolute strings the code handles (\<^verbatim>\<open>link.href\<close>,
    \<^verbatim>\<open>window.location.href\<close>, \<^verbatim>\<open>event.state.url\<close>). \<^verbatim>\<open>history.pushState\<close> throws a
    \<^verbatim>\<open>SecurityError\<close> for a URL whose origin (scheme, host and port) is not the origin of
    the current location, and otherwise makes the URL the location;
    \<^verbatim>\<open>history.replaceState\<close> is only called with the current location (line 78), which
    is always accepted.
  \<^item> \<^verbatim>\<open>window.scrollTo\<close> is taken to reach the offset it is given, and reading
    \<^verbatim>\<open>innerHTML\<close> to return the string last assigned to it.
  \<^item> \<^verbatim>\<open>currentIndex\<close> and \<^verbatim>\<open>index\<close> are natural numbers (the code only assigns 0,
    increments, and copies); scroll coordinates are only copied, never computed with.
\<close>

subsection \<open>Data\<close>

text \<open>An element: the three properties the code reads or writes, and \<open>attached\<close>, what
  the page and its other scripts attached to the element (listeners, attributes), which
  the code never mentions.\<close>

record element =
  innerHTML :: string
  style_opacity :: string
  dataset_spaInitialized :: "string option"
  attached :: "string list"

text \<open>The state object built at lines 70--77 and 149--155.\<close>

record history_state =
  st_url :: string
  st_title :: string
  st_content :: string
  st_scrollPosition :: "(int \<times> int) option"
  st_isInitialState :: bool
  st_index :: nat

text \<open>One entry of the session history: the state attached to it (absent for an entry
  this code did not write) and its URL.\<close>

record history_slot =
  slot_state :: "history_state option"
  slot_url :: string

record anchor =
  a_host :: string
  a_href :: string
  a_target :: string
  a_rel :: string

text \<open>A click event: \<open>closest_a\<close> is the result of \<^verbatim>\<open>e.target.closest('a')\<close>.\<close>

record click_event =
  closest_a :: "anchor option"
  defaultPrevented :: bool

text \<open>The \<^verbatim>\<open>detail\<close> of a \<^verbatim>\<open>spaContentUpdated\<close> event (lines 167--169).\<close>

record spa_event =
  detail_url :: string
  detail_pushState :: bool

record config =
  mainContentSelector :: string
  navigationSelector :: string

text \<open>The argument of the constructor: a key that is absent is \<open>None\<close>.\<close>

record config_arg =
  arg_mainContentSelector :: "string option"
  arg_navigationSelector :: "string option"

record response =
  resp_ok :: bool
  resp_status :: nat
  resp_text :: "string option"

datatype fetch_result = Rejected | Resolved response

text \<open>What the code reads of a parsed document: its title, and for a selector the
  \<^verbatim>\<open>innerHTML\<close> of the first matching element.\<close>

record parsed_document =
  doc_title :: string
  doc_querySelector :: "string \<Rightarrow> string option"

record env =
  fetch :: "string list \<Rightarrow> string \<Rightarrow> fetch_result"
  parseFromString :: "string \<Rightarrow> parsed_document"
  querySelector :: "string \<Rightarrow> nat option"
  querySelectorAll :: "string \<Rightarrow> nat list"
  getElementById :: "string \<Rightarrow> nat option"
  url_origin :: "string \<Rightarrow> string"

text \<open>The errors of a navigation: a rejected \<^verbatim>\<open>fetch\<close> or \<^verbatim>\<open>response.text()\<close>, the
  \<^verbatim>\<open>Error\<close> of line 132 with the status, the \<^verbatim>\<open>Error\<close> of line 140, the
  \<^verbatim>\<open>TypeError\<close> of a property access on a null \<^verbatim>\<open>mainContent\<close>, and the
  \<^verbatim>\<open>SecurityError\<close> of a refused \<^verbatim>\<open>history.pushState\<close>.\<close>

datatype nav_error =
  NetworkError | HttpError nat | ContentNotFoundError | TypeError | SecurityError

record world =
  config :: config
  mainContent :: "nat option"
  navigationElements :: "nat list"
  searchResults :: "nat option"
  currentIndex :: nat
  elements :: "nat \<Rightarrow> element"
  document_title :: string
  scroll :: "int \<times> int"
  location_href :: string
  location_host :: string
  history_entries :: "history_slot list"
  history_position :: nat
  popstateListeners :: nat
  clickListener :: bool
  fetched :: "string list"
  dispatched :: "spa_event list"

subsection \<open>Browser primitives\<close>

definition set_opacity :: "nat \<Rightarrow> string \<Rightarrow> world \<Rightarrow> world" where
  "set_opacity m v w = w\<lparr>elements := (elements w)(m := (elements w m)\<lparr>style_opacity := v\<rparr>)\<rparr>"

definition set_innerHTML :: "nat \<Rightarrow> string \<Rightarrow> world \<Rightarrow> world" where
  "set_innerHTML m v w = w\<lparr>elements := (elements w)(m := (elements w m)\<lparr>innerHTML := v\<rparr>)\<rparr>"

text \<open>\<^verbatim>\<open>history.replaceState\<close> overwrites the active entry. \<^verbatim>\<open>history.pushState\<close> throws
  when the URL is of another origin than the current location; otherwise it drops the
  entries after the active one and appends a new active entry.\<close>

definition history_replaceState :: "history_state \<Rightarrow> string \<Rightarrow> world \<Rightarrow> world" where
  "history_replaceState st u w =
     w\<lparr>history_entries :=
         (history_entries w)[history_position w := \<lparr>slot_state = Some st, slot_url = u\<rparr>],
       location_href := u\<rparr>"

definition history_pushState ::
  "env \<Rightarrow> history_state \<Rightarrow> string \<Rightarrow> world \<Rightarrow> nav_error option \<times> world" where
  "history_pushState e st u w =
     (if url_origin e u \<noteq> url_origin e (location_href w) then (Some SecurityError, w)
      else
        (None,
         w\<lparr>history_entries :=
             take (Suc (history_position w)) (history_entries w)
               @ [\<lparr>slot_state = Some st, slot_url = u\<rparr>],
           history_position := Suc (history_position w),
           location_href := u\<rparr>))"

definition window_scrollTo :: "int \<Rightarrow> int \<Rightarrow> world \<Rightarrow> world" where
  "window_scrollTo x y w = w\<lparr>scroll := (x, y)\<rparr>"

subsection \<open>constructor, init, initializeEventListeners\<close>

text \<open>Lines 53--80.\<close>

definition init :: "env \<Rightarrow> world \<Rightarrow> world" where
  "init e w =
     (let w1 = w\<lparr>mainContent := querySelector e (mainContentSelector (config w)),
                 navigationElements := querySelectorAll e (navigationSelector (config w)),
                 searchResults := getElementById e ''search-results''\<rparr>
      in case mainContent w1 of
           None \<Rightarrow> w1
         | Some m \<Rightarrow>
             (let w2 = w1\<lparr>popstateListeners := Suc (popstateListeners w1)\<rparr>;
                  w3 = w2\<lparr>clickListener := True\<rparr>;
                  initialState =
                    \<lparr>st_url = location_href w3,
                     st_title = document_title w3,
                     st_content = innerHTML (elements w3 m),
                     st_scrollPosition = Some (scroll w3),
                     st_isInitialState = True,
                     st_index = 0\<rparr>;
                  w4 = history_replaceState initialState (location_href w3) w3
              in w4\<lparr>currentIndex := 0\<rparr>))"

text \<open>Lines 36--47: the defaults, overridden by the keys of the argument, then \<^verbatim>\<open>init\<close>.
  The default content selector is \<^verbatim>\<open>main[role="main"]\<close>; character \<open>0x22\<close> is the double
  quote.\<close>

definition default_mainContentSelector :: string where
  "default_mainContentSelector = ''main[role='' @ [CHR 0x22] @ ''main'' @ [CHR 0x22] @ '']''"

definition merged_config :: "config_arg \<Rightarrow> config" where
  "merged_config arg =
     \<lparr>mainContentSelector =
        (case arg_mainContentSelector arg of None \<Rightarrow> default_mainContentSelector | Some s \<Rightarrow> s),
      navigationSelector =
        (case arg_navigationSelector arg of None \<Rightarrow> ''[data-spa-nav]'' | Some s \<Rightarrow> s)\<rparr>"

definition LightSPA :: "env \<Rightarrow> config_arg \<Rightarrow> world \<Rightarrow> world" where
  "LightSPA e arg w = init e (w\<lparr>config := merged_config arg\<rparr>)"

text \<open>Lines 82--87. An absent or empty \<^verbatim>\<open>dataset.spaInitialized\<close> is falsy.\<close>

definition initializeEventListeners :: "world \<Rightarrow> world" where
  "initializeEventListeners w =
     (case searchResults w of
        None \<Rightarrow> w
      | Some s \<Rightarrow>
          if dataset_spaInitialized (elements w s) = None
             \<or> dataset_spaInitialized (elements w s) = Some []
          then w\<lparr>elements :=
                   (elements w)(s := (elements w s)\<lparr>dataset_spaInitialized := Some ''true''\<rparr>)\<rparr>
          else w)"

subsection \<open>navigateTo\<close>

text \<open>Lines 131--133: the request and the body of the response.\<close>

definition fetchPage :: "env \<Rightarrow> world \<Rightarrow> string \<Rightarrow> nav_error + string" where
  "fetchPage e w u =
     (case fetch e (fetched w) u of
        Rejected \<Rightarrow> Inl NetworkError
      | Resolved r \<Rightarrow>
          if \<not> resp_ok r then Inl (HttpError (resp_status r))
          else (case resp_text r of None \<Rightarrow> Inl NetworkError | Some html \<Rightarrow> Inr html))"

text \<open>Lines 136--141: the parse, and the search for the content region.\<close>

definition extractContent :: "env \<Rightarrow> config \<Rightarrow> string \<Rightarrow> nav_error + (string \<times> string)" where
  "extractContent e cfg html =
     (let doc = parseFromString e html
      in case doc_querySelector doc (mainContentSelector cfg) of
           None \<Rightarrow> Inl ContentNotFoundError
         | Some markup \<Rightarrow> Inr (markup, doc_title doc))"

text \<open>Lines 148--158, for \<^verbatim>\<open>pushState\<close> true. The state object is built first, and with
  it \<^verbatim>\<open>currentIndex\<close> is incremented (line 154); a throw of \<^verbatim>\<open>history.pushState\<close>
  (line 156) leaves the increment in place and skips line 157.\<close>

definition push_entry :: "env \<Rightarrow> nat \<Rightarrow> string \<Rightarrow> world \<Rightarrow> nav_error option \<times> world" where
  "push_entry e m u w =
     (let w1 = w\<lparr>currentIndex := Suc (currentIndex w)\<rparr>;
          state =
            \<lparr>st_url = u,
             st_title = document_title w1,
             st_content = innerHTML (elements w1 m),
             st_scrollPosition = Some (0, 0),
             st_isInitialState = False,
             st_index = currentIndex w1\<rparr>
      in case history_pushState e state u w1 of
           (Some err, w2) \<Rightarrow> (Some err, w2)
         | (None, w2) \<Rightarrow> (None, window_scrollTo 0 0 w2))"

text \<open>Lines 127--170: the body of the \<^verbatim>\<open>try\<close>.\<close>

definition navigateTo_try :: "env \<Rightarrow> world \<Rightarrow> string \<Rightarrow> bool \<Rightarrow> nav_error option \<times> world" where
  "navigateTo_try e w u pushState =
     (case mainContent w of
        None \<Rightarrow> (Some TypeError, w)
      | Some m \<Rightarrow>
          (let w1 = set_opacity m ''0.5'' w;
               w2 = w1\<lparr>fetched := fetched w1 @ [u]\<rparr>
           in case fetchPage e w u of
                Inl err \<Rightarrow> (Some err, w2)
              | Inr html \<Rightarrow>
                  (case extractContent e (config w2) html of
                     Inl err \<Rightarrow> (Some err, w2)
                   | Inr (markup, t) \<Rightarrow>
                       (let w3 = set_innerHTML m markup w2;
                            w4 = w3\<lparr>document_title := t\<rparr>
                        in case (if pushState then push_entry e m u w4 else (None, w4)) of
                             (Some err, w5) \<Rightarrow> (Some err, w5)
                           | (None, w5) \<Rightarrow>
                               (let w6 = set_opacity m ''1'' w5;
                                    w7 = initializeEventListeners w6
                                in (None,
                                    w7\<lparr>dispatched := dispatched w7
                                         @ [\<lparr>detail_url = u, detail_pushState = pushState\<rparr>]\<rparr>))))))"

text \<open>Lines 120--174: the guard, the \<^verbatim>\<open>try\<close>, and the \<^verbatim>\<open>catch\<close> of line 172, which
  itself throws when \<^verbatim>\<open>mainContent\<close> is null.\<close>

definition navigateTo :: "env \<Rightarrow> world \<Rightarrow> string \<Rightarrow> bool \<Rightarrow> nav_error option \<times> world" where
  "navigateTo e w u pushState =
     (if u = location_href w \<and> \<not> pushState then (None, w)
      else (case navigateTo_try e w u pushState of
              (None, w') \<Rightarrow> (None, w')
            | (Some err, w') \<Rightarrow>
                (case mainContent w' of
                   None \<Rightarrow> (Some TypeError, w')
                 | Some m \<Rightarrow> (None, set_opacity m ''1'' w'))))"

subsection \<open>handleClick, isInternalLink\<close>

definition isInternalLink :: "world \<Rightarrow> anchor \<Rightarrow> bool" where
  "isInternalLink w link = (a_host link = location_host w)"

text \<open>Lines 93--105. The result is the error of the awaited \<^verbatim>\<open>navigateTo\<close> (if any),
  the event with its anchor as the handler left them, and the state.\<close>

definition handleClick :: "env \<Rightarrow> world \<Rightarrow> click_event \<Rightarrow> nav_error option \<times> click_event \<times> world" where
  "handleClick e w ev =
     (case closest_a ev of
        None \<Rightarrow> (None, ev, w)
      | Some link \<Rightarrow>
          if isInternalLink w link then
            (let ev' = ev\<lparr>defaultPrevented := True\<rparr>;
                 r = navigateTo e w (a_href link) True
             in (fst r, ev', snd r))
          else
            (None,
             ev\<lparr>closest_a := Some (link\<lparr>a_target := ''_blank'', a_rel := ''noopener noreferrer''\<rparr>)\<rparr>,
             w))"

subsection \<open>handlePopState\<close>

text \<open>Lines 179--204. \<^verbatim>\<open>navigateTo\<close> is called without \<^verbatim>\<open>await\<close>: a rejection of its
  promise is not an error of \<^verbatim>\<open>handlePopState\<close>. An empty \<^verbatim>\<open>content\<close> is falsy.\<close>

definition handlePopState :: "env \<Rightarrow> world \<Rightarrow> history_state option \<Rightarrow> nav_error option \<times> world" where
  "handlePopState e w state =
     (case state of
        None \<Rightarrow> (None, snd (navigateTo e w (location_href w) False))
      | Some st \<Rightarrow>
          (let w1 = w\<lparr>currentIndex := st_index st\<rparr>
           in if st_content st \<noteq> [] then
                (case mainContent w1 of
                   None \<Rightarrow> (Some TypeError, w1)
                 | Some m \<Rightarrow>
                     (let w2 = set_innerHTML m (st_content st) w1;
                          w3 = w2\<lparr>document_title := st_title st\<rparr>;
                          w4 = set_opacity m ''1'' w3
                      in (None,
                          (case st_scrollPosition st of
                             None \<Rightarrow> w4
                           | Some (x, y) \<Rightarrow> window_scrollTo x y w4))))
              else (None, snd (navigateTo e w1 (st_url st) False))))"

subsection \<open>The browser delivering events\<close>

text \<open>A click reaches \<^verbatim>\<open>handleClick\<close> only when \<^verbatim>\<open>init\<close> registered it (line 67); a
  \<^verbatim>\<open>popstate\<close> event runs every listener that line 64 registered. An error of a
  listener is reported by the browser and does not stop the others.\<close>

definition deliver_click :: "env \<Rightarrow> world \<Rightarrow> click_event \<Rightarrow> click_event \<times> world" where
  "deliver_click e w ev = (if clickListener w then snd (handleClick e w ev) else (ev, w))"

fun deliver_popstate :: "nat \<Rightarrow> env \<Rightarrow> world \<Rightarrow> history_state option \<Rightarrow> world" where
  "deliver_popstate 0 e w state = w"
| "deliver_popstate (Suc n) e w state =
     deliver_popstate n e (snd (handlePopState e w state)) state"

text \<open>The user pressing Back: the browser activates the previous entry of the session
  history, makes its URL the location, and fires \<^verbatim>\<open>popstate\<close> with its state.\<close>

definition history_back :: "env \<Rightarrow> world \<Rightarrow> world" where
  "history_back e w =
     (if 0 < history_position w \<and> history_position w < length (history_entries w) then
        (let p = history_position w - 1;
             slot = history_entries w ! p;
             w1 = w\<lparr>history_position := p, location_href := slot_url slot\<rparr>
         in deliver_popstate (popstateListeners w1) e w1 (slot_state slot))
      else w)"

text \<open>The user scrolling the page.\<close>

definition user_scroll :: "int \<times> int \<Rightarrow> world \<Rightarrow> world" where
  "user_scroll p w = w\<lparr>scroll := p\<rparr>"

subsection \<open>Runs\<close>

text \<open>The page can be fetched and extracted: the request resolves with an \<^verbatim>\<open>ok\<close>
  response whose body can be read and whose parsed document has an element for the
  content selector.\<close>

definition nav_ok :: "env \<Rightarrow> world \<Rightarrow> string \<Rightarrow> bool" where
  "nav_ok e w u =
     (case fetchPage e w u of
        Inl err \<Rightarrow> False
      | Inr html \<Rightarrow>
          (case extractContent e (config w) html of Inl err \<Rightarrow> False | Inr r \<Rightarrow> True))"

text \<open>A navigation is successful when the body of the \<^verbatim>\<open>try\<close> runs to its end: the page
  is fetched, its content region is found and, for \<^verbatim>\<open>pushState\<close> true, the entry is
  pushed.\<close>

definition nav_succeeds :: "env \<Rightarrow> world \<Rightarrow> string \<Rightarrow> bool \<Rightarrow> bool" where
  "nav_succeeds e w u p = (fst (navigateTo_try e w u p) = None)"



text \<open>The ordinals stored in a list of history entries.\<close>

definition ordinals :: "history_slot list \<Rightarrow> nat option list" where
  "ordinals slots = map (\<lambda>s. map_option st_index (slot_state s)) slots"

text \<open>What can happen after the constructor: a click, a \<^verbatim>\<open>popstate\<close> event with some
  state, a direct call of \<^verbatim>\<open>navigateTo\<close>, the user scrolling, the user pressing Back.\<close>

datatype action =
    Click click_event
  | PopState "history_state option"
  | Navigate string bool
  | Scroll "int \<times> int"
  | Back

fun step :: "env \<Rightarrow> world \<Rightarrow> action \<Rightarrow> world" where
  "step e w (Click ev) = snd (deliver_click e w ev)"
| "step e w (PopState state) = deliver_popstate (popstateListeners w) e w state"
| "step e w (Navigate u p) = snd (navigateTo e w u p)"
| "step e w (Scroll p) = user_scroll p w"
| "step e w Back = history_back e w"

fun run :: "env \<Rightarrow> world \<Rightarrow> action list \<Rightarrow> world" where
  "run e w [] = w"
| "run e w (a # as) = run e (step e w a) as"

subsection \<open>A small site\<close>

text \<open>A page \<^verbatim>\<open>https://example.org/\<close> whose content region (element 0) holds \<^verbatim>\<open>Home\<close>, and
  a server that answers \<^verbatim>\<open>/about\<close> with a page whose content region holds \<^verbatim>\<open>About\<close>,
  \<^verbatim>\<open>/broken\<close> with status 500, \<^verbatim>\<open>/bare\<close> with a page without content region, and
  rejects every other request. The server answers \<^verbatim>\<open>http://example.org/about\<close> as well: the
  same host under another scheme, hence another origin. The content region carries a
  listener of the page, and element 1 is a sidebar outside the content region.\<close>

definition site_parse :: "string \<Rightarrow> parsed_document" where
  "site_parse html =
     (if html = ''<title>About</title><main>About</main>'' then
        \<lparr>doc_title = ''About'',
         doc_querySelector = (\<lambda>sel. if sel = default_mainContentSelector then Some ''About'' else None)\<rparr>
      else \<lparr>doc_title = ''Bare'', doc_querySelector = (\<lambda>sel. None)\<rparr>)"

definition site_fetch :: "string list \<Rightarrow> string \<Rightarrow> fetch_result" where
  "site_fetch reqs u =
     (if u = ''https://example.org/about'' \<or> u = ''http://example.org/about'' then
        Resolved \<lparr>resp_ok = True, resp_status = 200,
                  resp_text = Some ''<title>About</title><main>About</main>''\<rparr>
      else if u = ''https://example.org/broken'' then
        Resolved \<lparr>resp_ok = False, resp_status = 500, resp_text = Some []\<rparr>
      else if u = ''https://example.org/bare'' then
        Resolved \<lparr>resp_ok = True, resp_status = 200, resp_text = Some ''<title>Bare</title>''\<rparr>
      else Rejected)"

definition site_origin :: "string \<Rightarrow> string" where
  "site_origin u =
     (if take 20 u = ''https://example.org/'' then ''https://example.org''
      else if take 19 u = ''http://example.org/'' then ''http://example.org''
      else u)"

definition site :: env where
  "site =
     \<lparr>fetch = site_fetch,
      parseFromString = site_parse,
      querySelector = (\<lambda>sel. if sel = default_mainContentSelector then Some 0 else None),
      querySelectorAll = (\<lambda>sel. []),
      getElementById = (\<lambda>i. None),
      url_origin = site_origin\<rparr>"

text \<open>The same document for a script configured with a selector that matches nothing.\<close>

definition no_match :: config_arg where
  "no_match = \<lparr>arg_mainContentSelector = Some ''#absent'', arg_navigationSelector = None\<rparr>"

definition defaults :: config_arg where
  "defaults = \<lparr>arg_mainContentSelector = None, arg_navigationSelector = None\<rparr>"

text \<open>The browser before the script runs.\<close>

definition home_page :: world where
  "home_page =
     \<lparr>config = \<lparr>mainContentSelector = [], navigationSelector = []\<rparr>,
      mainContent = None,
      navigationElements = [],
      searchResults = None,
      currentIndex = 0,
      elements = (\<lambda>i. \<lparr>innerHTML = (if i = 0 then ''Home'' else if i = 1 then ''Sidebar'' else []),
                        style_opacity = [], dataset_spaInitialized = None,
                        attached = (if i = 0 then [''swipe-listener''] else [])\<rparr>),
      document_title = ''Home'',
      scroll = (0, 0),
      location_href = ''https://example.org/'',
      location_host = ''example.org'',
      history_entries = [\<lparr>slot_state = None, slot_url = ''https://example.org/''\<rparr>],
      history_position = 0,
      popstateListeners = 0,
      clickListener = False,
      fetched = [],
      dispatched = []\<rparr>"

definition home :: world where
  "home = LightSPA site defaults home_page"

definition about_link :: anchor where
  "about_link = \<lparr>a_host = ''example.org'', a_href = ''https://example.org/about'',
                 a_target = [], a_rel = []\<rparr>"

text \<open>A link to the same host under the scheme \<^verbatim>\<open>http\<close>.\<close>

definition http_link :: anchor where
  "http_link = \<lparr>a_host = ''example.org'', a_href = ''http://example.org/about'',
                a_target = [], a_rel = []\<rparr>"

definition external_link :: anchor where
  "external_link = \<lparr>a_host = ''elsewhere.net'', a_href = ''https://elsewhere.net/'',
                    a_target = [], a_rel = []\<rparr>"

definition click_on :: "anchor \<Rightarrow> click_event" where
  "click_on a = \<lparr>closest_a = Some a, defaultPrevented = False\<rparr>"

text \<open>The state after a click on the link to \<^verbatim>\<open>/about\<close>.\<close>

definition about_page :: world where
  "about_page = snd (navigateTo site home ''https://example.org/about'' True)"

text \<open>The user scrolls the home page down, then clicks on the link to \<^verbatim>\<open>/about\<close>.\<close>

definition scrolled_home :: world where
  "scrolled_home = user_scroll (0, 250) home"

definition scrolled_about :: world where
  "scrolled_about = snd (deliver_click site scrolled_home (click_on about_link))"

text \<open>The events the browser hands to the listeners of the class.\<close>

fun is_event :: "action \<Rightarrow> bool" where
  "is_event (Click ev) = True"
| "is_event (PopState state) = True"
| "is_event a = False"

text \<open>What a method may change of element \<open>k\<close> between two states: the markup and the
  opacity when \<open>k\<close> is the content region, \<^verbatim>\<open>dataset.spaInitialized\<close> when \<open>k\<close> is the
  search-results element, and nothing else; the two references stay as they are.\<close>

definition frame_at :: "nat \<Rightarrow> world \<Rightarrow> world \<Rightarrow> bool" where
  "frame_at k w w' \<longleftrightarrow>
     mainContent w' = mainContent w
     \<and> searchResults w' = searchResults w
     \<and> attached (elements w' k) = attached (elements w k)
     \<and> (mainContent w = Some k
          \<or> innerHTML (elements w' k) = innerHTML (elements w k)
            \<and> style_opacity (elements w' k) = style_opacity (elements w k))
     \<and> (searchResults w = Some k
          \<or> dataset_spaInitialized (elements w' k) = dataset_spaInitialized (elements w k))"

section \<open>Properties\<close>

subsection \<open>Field lemmas for the primitives\<close>

lemma set_opacity_fields [simp]:
  "config (set_opacity m v w) = config w"
  "mainContent (set_opacity m v w) = mainContent w"
  "navigationElements (set_opacity m v w) = navigationElements w"
  "searchResults (set_opacity m v w) = searchResults w"
  "currentIndex (set_opacity m v w) = currentIndex w"
  "document_title (set_opacity m v w) = document_title w"
  "scroll (set_opacity m v w) = scroll w"
  "location_href (set_opacity m v w) = location_href w"
  "location_host (set_opacity m v w) = location_host w"
  "history_entries (set_opacity m v w) = history_entries w"
  "history_position (set_opacity m v w) = history_position w"
  "popstateListeners (set_opacity m v w) = popstateListeners w"
  "clickListener (set_opacity m v w) = clickListener w"
  "fetched (set_opacity m v w) = fetched w"
  "dispatched (set_opacity m v w) = dispatched w"
  by (simp_all add: set_opacity_def)

lemma set_opacity_elements [simp]:
  "style_opacity (elements (set_opacity m v w) m) = v"
  "innerHTML (elements (set_opacity m v w) k) = innerHTML (elements w k)"
  "dataset_spaInitialized (elements (set_opacity m v w) k) = dataset_spaInitialized (elements w k)"
  "attached (elements (set_opacity m v w) k) = attached (elements w k)"
  "k \<noteq> m \<Longrightarrow> elements (set_opacity m v w) k = elements w k"
  by (simp_all add: set_opacity_def)

lemma set_opacity_twice [simp]:
  "set_opacity m v (set_opacity m v' w) = set_opacity m v w"
  by (simp add: set_opacity_def)

lemma set_opacity_fetched_commute:
  "set_opacity m v (w\<lparr>fetched := f\<rparr>) = (set_opacity m v w)\<lparr>fetched := f\<rparr>"
  by (simp add: set_opacity_def)

lemma set_innerHTML_fields [simp]:
  "config (set_innerHTML m v w) = config w"
  "mainContent (set_innerHTML m v w) = mainContent w"
  "navigationElements (set_innerHTML m v w) = navigationElements w"
  "searchResults (set_innerHTML m v w) = searchResults w"
  "currentIndex (set_innerHTML m v w) = currentIndex w"
  "document_title (set_innerHTML m v w) = document_title w"
  "scroll (set_innerHTML m v w) = scroll w"
  "location_href (set_innerHTML m v w) = location_href w"
  "location_host (set_innerHTML m v w) = location_host w"
  "history_entries (set_innerHTML m v w) = history_entries w"
  "history_position (set_innerHTML m v w) = history_position w"
  "popstateListeners (set_innerHTML m v w) = popstateListeners w"
  "clickListener (set_innerHTML m v w) = clickListener w"
  "fetched (set_innerHTML m v w) = fetched w"
  "dispatched (set_innerHTML m v w) = dispatched w"
  by (simp_all add: set_innerHTML_def)

lemma set_innerHTML_elements [simp]:
  "innerHTML (elements (set_innerHTML m v w) m) = v"
  "style_opacity (elements (set_innerHTML m v w) k) = style_opacity (elements w k)"
  "dataset_spaInitialized (elements (set_innerHTML m v w) k) = dataset_spaInitialized (elements w k)"
  "attached (elements (set_innerHTML m v w) k) = attached (elements w k)"
  "k \<noteq> m \<Longrightarrow> elements (set_innerHTML m v w) k = elements w k"
  by (simp_all add: set_innerHTML_def)

lemma initializeEventListeners_fields [simp]:
  "config (initializeEventListeners w) = config w"
  "mainContent (initializeEventListeners w) = mainContent w"
  "navigationElements (initializeEventListeners w) = navigationElements w"
  "searchResults (initializeEventListeners w) = searchResults w"
  "currentIndex (initializeEventListeners w) = currentIndex w"
  "document_title (initializeEventListeners w) = document_title w"
  "scroll (initializeEventListeners w) = scroll w"
  "location_href (initializeEventListeners w) = location_href w"
  "location_host (initializeEventListeners w) = location_host w"
  "history_entries (initializeEventListeners w) = history_entries w"
  "history_position (initializeEventListeners w) = history_position w"
  "popstateListeners (initializeEventListeners w) = popstateListeners w"
  "clickListener (initializeEventListeners w) = clickListener w"
  "fetched (initializeEventListeners w) = fetched w"
  "dispatched (initializeEventListeners w) = dispatched w"
  by (simp_all add: initializeEventListeners_def split: option.splits)

lemma initializeEventListeners_elements [simp]:
  "innerHTML (elements (initializeEventListeners w) k) = innerHTML (elements w k)"
  "style_opacity (elements (initializeEventListeners w) k) = style_opacity (elements w k)"
  "attached (elements (initializeEventListeners w) k) = attached (elements w k)"
  "searchResults w \<noteq> Some k \<Longrightarrow> elements (initializeEventListeners w) k = elements w k"
  by (auto simp: initializeEventListeners_def split: option.splits)

lemma push_entry_frame [simp]:
  "config (snd (push_entry e m u w)) = config w"
  "mainContent (snd (push_entry e m u w)) = mainContent w"
  "navigationElements (snd (push_entry e m u w)) = navigationElements w"
  "searchResults (snd (push_entry e m u w)) = searchResults w"
  "currentIndex (snd (push_entry e m u w)) = Suc (currentIndex w)"
  "elements (snd (push_entry e m u w)) = elements w"
  "document_title (snd (push_entry e m u w)) = document_title w"
  "location_host (snd (push_entry e m u w)) = location_host w"
  "popstateListeners (snd (push_entry e m u w)) = popstateListeners w"
  "clickListener (snd (push_entry e m u w)) = clickListener w"
  "fetched (snd (push_entry e m u w)) = fetched w"
  "dispatched (snd (push_entry e m u w)) = dispatched w"
  by (simp_all add: push_entry_def history_pushState_def window_scrollTo_def Let_def)

lemma push_entry_accepted:
  assumes "url_origin e u = url_origin e (location_href w)"
  shows "fst (push_entry e m u w) = None"
    and "scroll (snd (push_entry e m u w)) = (0, 0)"
    and "location_href (snd (push_entry e m u w)) = u"
    and "history_position (snd (push_entry e m u w)) = Suc (history_position w)"
    and "history_entries (snd (push_entry e m u w)) =
       take (Suc (history_position w)) (history_entries w)
         @ [\<lparr>slot_state = Some \<lparr>st_url = u, st_title = document_title w,
                                 st_content = innerHTML (elements w m),
                                 st_scrollPosition = Some (0, 0),
                                 st_isInitialState = False,
                                 st_index = Suc (currentIndex w)\<rparr>,
             slot_url = u\<rparr>]"
  using assms
  by (simp_all add: push_entry_def history_pushState_def window_scrollTo_def Let_def)

lemma push_entry_refused:
  assumes "url_origin e u \<noteq> url_origin e (location_href w)"
  shows "push_entry e m u w = (Some SecurityError, w\<lparr>currentIndex := Suc (currentIndex w)\<rparr>)"
  using assms
  by (simp add: push_entry_def history_pushState_def Let_def)

lemma push_entry_error:
  "push_entry e m u w = (Some err, w1) \<Longrightarrow>
   err = SecurityError \<and> url_origin e u \<noteq> url_origin e (location_href w)"
  by (auto simp: push_entry_def history_pushState_def Let_def split: if_splits)

subsection \<open>The outcomes of navigateTo\<close>

lemma navigateTo_try_failure:
  assumes "mainContent w = Some m" and "\<not> nav_ok e w u"
  shows "\<exists>err. err \<noteq> TypeError \<and> err \<noteq> SecurityError
           \<and> navigateTo_try e w u p = (Some err, (set_opacity m ''0.5'' w)\<lparr>fetched := fetched w @ [u]\<rparr>)"
  using assms
  by (auto simp: navigateTo_try_def nav_ok_def fetchPage_def extractContent_def Let_def
      split: sum.splits option.splits fetch_result.splits if_splits)

lemma navigateTo_try_error_cases:
  assumes "navigateTo_try e w u p = (Some err, w1)"
    and "err \<noteq> TypeError" and "err \<noteq> SecurityError"
  shows "\<exists>m. mainContent w = Some m \<and> \<not> nav_ok e w u
           \<and> w1 = (set_opacity m ''0.5'' w)\<lparr>fetched := fetched w @ [u]\<rparr>"
  using assms
  by (auto simp: navigateTo_try_def nav_ok_def fetchPage_def extractContent_def Let_def
      split: sum.splits option.splits fetch_result.splits if_splits prod.splits
      dest: push_entry_error)

lemma navigateTo_try_success:
  assumes "mainContent w = Some m" and "fetchPage e w u = Inr html"
    and "extractContent e (config w) html = Inr (markup, t)"
    and "p \<longrightarrow> url_origin e u = url_origin e (location_href w)"
  shows "navigateTo_try e w u p =
     (None,
      (initializeEventListeners
        (set_opacity m ''1''
          ((if p then (\<lambda>x. snd (push_entry e m u x)) else id)
             ((set_innerHTML m markup
                 ((set_opacity m ''0.5'' w)\<lparr>fetched := fetched w @ [u]\<rparr>))\<lparr>document_title := t\<rparr>))))
       \<lparr>dispatched := dispatched w @ [\<lparr>detail_url = u, detail_pushState = p\<rparr>]\<rparr>)"
proof (cases p)
  case False
  with assms show ?thesis
    by (simp add: navigateTo_try_def Let_def)
next
  case True
  let ?w4 = "(set_innerHTML m markup
                 ((set_opacity m ''0.5'' w)\<lparr>fetched := fetched w @ [u]\<rparr>))\<lparr>document_title := t\<rparr>"
  have "url_origin e u = url_origin e (location_href ?w4)"
    using assms(4) True by simp
  then obtain w5 where pe: "push_entry e m u ?w4 = (None, w5)"
    using push_entry_accepted(1) [of e u ?w4 m] by (cases "push_entry e m u ?w4") auto
  have "dispatched (snd (push_entry e m u ?w4)) = dispatched w"
    by simp
  then have d: "dispatched w5 = dispatched w"
    by (simp add: pe)
  from assms True pe d show ?thesis
    by (simp add: navigateTo_try_def Let_def)
qed

lemma navigateTo_success:
  assumes "mainContent w = Some m" and "fetchPage e w u = Inr html"
    and "extractContent e (config w) html = Inr (markup, t)"
    and "p \<or> u \<noteq> location_href w"
    and "p \<longrightarrow> url_origin e u = url_origin e (location_href w)"
  shows "navigateTo e w u p =
     (None,
      (initializeEventListeners
        (set_opacity m ''1''
          ((if p then (\<lambda>x. snd (push_entry e m u x)) else id)
             ((set_innerHTML m markup
                 ((set_opacity m ''0.5'' w)\<lparr>fetched := fetched w @ [u]\<rparr>))\<lparr>document_title := t\<rparr>))))
       \<lparr>dispatched := dispatched w @ [\<lparr>detail_url = u, detail_pushState = p\<rparr>]\<rparr>)"
  using assms(4) navigateTo_try_success [OF assms(1) assms(2) assms(3) assms(5)]
  by (auto simp: navigateTo_def)

text \<open>A push that the browser refuses: the content and the title are already those of
  the fetched page and \<^verbatim>\<open>currentIndex\<close> is already incremented when
  \<^verbatim>\<open>history.pushState\<close> throws; the \<^verbatim>\<open>catch\<close> restores the opacity, and no entry is
  pushed and no event dispatched.\<close>

lemma navigateTo_refused_push:
  assumes "mainContent w = Some m" and "fetchPage e w u = Inr html"
    and "extractContent e (config w) html = Inr (markup, t)"
    and "url_origin e u \<noteq> url_origin e (location_href w)"
  shows "navigateTo_try e w u True =
     (Some SecurityError,
      ((set_innerHTML m markup
          ((set_opacity m ''0.5'' w)\<lparr>fetched := fetched w @ [u]\<rparr>))\<lparr>document_title := t\<rparr>)
       \<lparr>currentIndex := Suc (currentIndex w)\<rparr>)"
    and "navigateTo e w u True =
     (None,
      set_opacity m ''1''
        (((set_innerHTML m markup
            ((set_opacity m ''0.5'' w)\<lparr>fetched := fetched w @ [u]\<rparr>))\<lparr>document_title := t\<rparr>)
         \<lparr>currentIndex := Suc (currentIndex w)\<rparr>))"
proof -
  let ?w4 = "(set_innerHTML m markup
                 ((set_opacity m ''0.5'' w)\<lparr>fetched := fetched w @ [u]\<rparr>))\<lparr>document_title := t\<rparr>"
  have "url_origin e u \<noteq> url_origin e (location_href ?w4)"
    using assms(4) by simp
  then have r: "push_entry e m u ?w4 = (Some SecurityError, ?w4\<lparr>currentIndex := Suc (currentIndex ?w4)\<rparr>)"
    by (rule push_entry_refused)
  show t: "navigateTo_try e w u True =
     (Some SecurityError, ?w4\<lparr>currentIndex := Suc (currentIndex w)\<rparr>)"
    using assms(1-3) r by (simp add: navigateTo_try_def Let_def)
  show "navigateTo e w u True =
     (None, set_opacity m ''1'' (?w4\<lparr>currentIndex := Suc (currentIndex w)\<rparr>))"
    using assms(1) by (simp add: navigateTo_def t)
qed



subsection \<open>The duplicate-URL guard\<close>

text \<open>
  Claim C5. Calling \<^verbatim>\<open>navigateTo(url, false)\<close> while \<^verbatim>\<open>window.location.href\<close> is exactly
  \<^verbatim>\<open>url\<close> returns at the guard of line 122: the promise resolves and the whole state is
  the one before the call, so no request is issued (the log \<open>fetched\<close> is unchanged), the
  content region, its opacity and the title are unchanged, and the history is unchanged.
\<close>

theorem navigateTo_same_url_no_push_is_noop:
  "navigateTo e w (location_href w) False = (None, w)"
  by (simp add: navigateTo_def)

subsection \<open>The small site after the constructor\<close>

lemma home_eq:
  "home =
     \<lparr>config = \<lparr>mainContentSelector = default_mainContentSelector,
                 navigationSelector = ''[data-spa-nav]''\<rparr>,
      mainContent = Some 0,
      navigationElements = [],
      searchResults = None,
      currentIndex = 0,
      elements = (\<lambda>i. \<lparr>innerHTML = (if i = 0 then ''Home'' else if i = 1 then ''Sidebar'' else []),
                        style_opacity = [], dataset_spaInitialized = None,
                        attached = (if i = 0 then [''swipe-listener''] else [])\<rparr>),
      document_title = ''Home'',
      scroll = (0, 0),
      location_href = ''https://example.org/'',
      location_host = ''example.org'',
      history_entries =
        [\<lparr>slot_state = Some \<lparr>st_url = ''https://example.org/'', st_title = ''Home'',
                               st_content = ''Home'', st_scrollPosition = Some (0, 0),
                               st_isInitialState = True, st_index = 0\<rparr>,
          slot_url = ''https://example.org/''\<rparr>],
      history_position = 0,
      popstateListeners = 1,
      clickListener = True,
      fetched = [],
      dispatched = []\<rparr>"
  by (simp add: home_def LightSPA_def init_def merged_config_def defaults_def home_page_def
      site_def history_replaceState_def Let_def)

lemma site_origin_simps [simp]:
  "url_origin site ''https://example.org/'' = ''https://example.org''"
  "url_origin site ''https://example.org/about'' = ''https://example.org''"
  "url_origin site ''http://example.org/about'' = ''http://example.org''"
  by (simp_all add: site_def site_origin_def)

lemma site_fetch_about:
  "fetchPage site w ''https://example.org/about'' = Inr ''<title>About</title><main>About</main>''"
  by (simp add: fetchPage_def site_def site_fetch_def)

lemma site_extract_about:
  "mainContentSelector cfg = default_mainContentSelector \<Longrightarrow>
   extractContent site cfg ''<title>About</title><main>About</main>'' = Inr (''About'', ''About'')"
  by (simp add: extractContent_def site_def site_parse_def)

lemma about_page_eq:
  "about_page =
     \<lparr>config = \<lparr>mainContentSelector = default_mainContentSelector,
                 navigationSelector = ''[data-spa-nav]''\<rparr>,
      mainContent = Some 0,
      navigationElements = [],
      searchResults = None,
      currentIndex = 1,
      elements = (\<lambda>i. \<lparr>innerHTML = (if i = 0 then ''About'' else if i = 1 then ''Sidebar'' else []),
                        style_opacity = (if i = 0 then ''1'' else []),
                        dataset_spaInitialized = None,
                        attached = (if i = 0 then [''swipe-listener''] else [])\<rparr>),
      document_title = ''About'',
      scroll = (0, 0),
      location_href = ''https://example.org/about'',
      location_host = ''example.org'',
      history_entries =
        [\<lparr>slot_state = Some \<lparr>st_url = ''https://example.org/'', st_title = ''Home'',
                               st_content = ''Home'', st_scrollPosition = Some (0, 0),
                               st_isInitialState = True, st_index = 0\<rparr>,
          slot_url = ''https://example.org/''\<rparr>,
         \<lparr>slot_state = Some \<lparr>st_url = ''https://example.org/about'', st_title = ''About'',
                               st_content = ''About'', st_scrollPosition = Some (0, 0),
                               st_isInitialState = False, st_index = 1\<rparr>,
          slot_url = ''https://example.org/about''\<rparr>],
      history_position = 1,
      popstateListeners = 1,
      clickListener = True,
      fetched = [''https://example.org/about''],
      dispatched = [\<lparr>detail_url = ''https://example.org/about'', detail_pushState = True\<rparr>]\<rparr>"
proof -
  have m: "mainContent home = Some 0" by (simp add: home_eq)
  have x: "extractContent site (config home) ''<title>About</title><main>About</main>''
             = Inr (''About'', ''About'')"
    by (rule site_extract_about) (simp add: home_eq)
  have o: "True \<longrightarrow> url_origin site ''https://example.org/about''
             = url_origin site (location_href home)"
    by (simp add: home_eq)
  show ?thesis
    unfolding about_page_def navigateTo_success [OF m site_fetch_about x disjI1 [OF TrueI] o]
    by (simp add: home_eq push_entry_def history_pushState_def window_scrollTo_def
        set_opacity_def set_innerHTML_def initializeEventListeners_def Let_def fun_eq_iff)
qed

lemmas eval_defs =
  navigateTo_def navigateTo_try_def fetchPage_def extractContent_def push_entry_def
  history_pushState_def window_scrollTo_def set_opacity_def set_innerHTML_def
  initializeEventListeners_def handlePopState_def handleClick_def isInternalLink_def
  deliver_click_def history_back_def user_scroll_def site_def site_fetch_def site_parse_def
  site_origin_def
  about_link_def external_link_def click_on_def Let_def

lemma scrolled_about_eq: "scrolled_about = about_page"
  by (simp add: scrolled_about_def scrolled_home_def about_page_def home_eq eval_defs)

subsection \<open>Failed navigations\<close>

text \<open>
  Claim C1. A navigation that fails with \<open>NetworkError\<close> (the request or the reading of
  the body is rejected), \<open>HttpError\<close> (the response is not \<^verbatim>\<open>ok\<close>) or
  \<open>ContentNotFoundError\<close> (the fetched document has no element for the content selector)
  is absorbed by \<^verbatim>\<open>navigateTo\<close>: the promise resolves, the opacity of the content region is
  \<^verbatim>\<open>'1'\<close>, and the markup of every element, the document title, the history entries, the
  history position, the location, \<^verbatim>\<open>currentIndex\<close> and the list of dispatched events are what
  they were before the call. The state after the call differs from the state before only
  in that opacity and in the log of requests.
\<close>

theorem navigateTo_failure_absorbed:
  assumes "p \<or> u \<noteq> location_href w"
    and "navigateTo_try e w u p = (Some err, w1)"
    and "err = NetworkError \<or> (\<exists>s. err = HttpError s) \<or> err = ContentNotFoundError"
  shows "\<exists>m. mainContent w = Some m
           \<and> navigateTo e w u p = (None, (set_opacity m ''1'' w)\<lparr>fetched := fetched w @ [u]\<rparr>)
           \<and> style_opacity (elements (snd (navigateTo e w u p)) m) = ''1''
           \<and> (\<forall>k. innerHTML (elements (snd (navigateTo e w u p)) k) = innerHTML (elements w k))
           \<and> document_title (snd (navigateTo e w u p)) = document_title w
           \<and> history_entries (snd (navigateTo e w u p)) = history_entries w
           \<and> history_position (snd (navigateTo e w u p)) = history_position w
           \<and> location_href (snd (navigateTo e w u p)) = location_href w
           \<and> currentIndex (snd (navigateTo e w u p)) = currentIndex w
           \<and> dispatched (snd (navigateTo e w u p)) = dispatched w"
proof -
  from assms(3) have ne: "err \<noteq> TypeError" and ns: "err \<noteq> SecurityError" by auto
  from navigateTo_try_error_cases [OF assms(2) ne ns]
  obtain m where m: "mainContent w = Some m"
    and w1: "w1 = (set_opacity m ''0.5'' w)\<lparr>fetched := fetched w @ [u]\<rparr>"
    by blast
  have nav: "navigateTo e w u p = (None, (set_opacity m ''1'' w)\<lparr>fetched := fetched w @ [u]\<rparr>)"
    using assms(1) assms(2) m w1
    by (auto simp: navigateTo_def set_opacity_fetched_commute)
  show ?thesis
    using m by (simp add: nav)
qed

theorem navigateTo_failure_absorbed_witness:
  "navigateTo_try site home ''https://example.org/broken'' True
     = (Some (HttpError 500),
        (set_opacity 0 ''0.5'' home)\<lparr>fetched := [''https://example.org/broken'']\<rparr>)
   \<and> navigateTo site home ''https://example.org/broken'' True
     = (None, (set_opacity 0 ''1'' home)\<lparr>fetched := [''https://example.org/broken'']\<rparr>)
   \<and> innerHTML (elements (snd (navigateTo site home ''https://example.org/broken'' True)) 0) = ''Home''
   \<and> dispatched (snd (navigateTo site home ''https://example.org/broken'' True)) = []"
proof -
  have t: "navigateTo_try site home ''https://example.org/broken'' True
     = (Some (HttpError 500),
        (set_opacity 0 ''0.5'' home)\<lparr>fetched := fetched home @ [''https://example.org/broken'']\<rparr>)"
    by (simp add: home_eq navigateTo_try_def fetchPage_def site_def site_fetch_def
        set_opacity_def Let_def)
  have k: "HttpError 500 = NetworkError \<or> (\<exists>s. HttpError 500 = HttpError s)
             \<or> HttpError 500 = ContentNotFoundError"
    by simp
  have f: "fetched home = []" "mainContent home = Some 0"
     "innerHTML (elements home 0) = ''Home''" "dispatched home = []"
    by (simp_all add: home_eq)
  from navigateTo_failure_absorbed [OF _ t k] f t show ?thesis
    by auto
qed

subsection \<open>A forward navigation to the current location\<close>

text \<open>
  Claim C10. \<^verbatim>\<open>navigateTo(url, true)\<close> with \<^verbatim>\<open>url\<close> exactly \<^verbatim>\<open>window.location.href\<close> is not
  stopped by the guard of line 122, which needs \<^verbatim>\<open>pushState\<close> false. When the request and
  the extraction succeed, the promise resolves, the URL is requested once more, the
  content region and the title are those of the fetched page, and one entry is pushed
  after the active one: for the same location, with \<^verbatim>\<open>index\<close> one more than
  \<^verbatim>\<open>currentIndex\<close> before the call, which is also the new \<^verbatim>\<open>currentIndex\<close>.
\<close>

theorem navigateTo_same_url_push_is_not_dropped:
  assumes "mainContent w = Some m"
    and "fetchPage e w (location_href w) = Inr html"
    and "extractContent e (config w) html = Inr (markup, t)"
  shows "fst (navigateTo e w (location_href w) True) = None
     \<and> fetched (snd (navigateTo e w (location_href w) True)) = fetched w @ [location_href w]
     \<and> innerHTML (elements (snd (navigateTo e w (location_href w) True)) m) = markup
     \<and> document_title (snd (navigateTo e w (location_href w) True)) = t
     \<and> history_entries (snd (navigateTo e w (location_href w) True)) =
         take (Suc (history_position w)) (history_entries w)
           @ [\<lparr>slot_state = Some \<lparr>st_url = location_href w, st_title = t,
                                   st_content = markup,
                                   st_scrollPosition = Some (0, 0),
                                   st_isInitialState = False,
                                   st_index = Suc (currentIndex w)\<rparr>,
               slot_url = location_href w\<rparr>]
     \<and> history_position (snd (navigateTo e w (location_href w) True)) = Suc (history_position w)
     \<and> location_href (snd (navigateTo e w (location_href w) True)) = location_href w
     \<and> currentIndex (snd (navigateTo e w (location_href w) True)) = Suc (currentIndex w)"
  by (simp add: navigateTo_success [OF assms(1) assms(2) assms(3)] push_entry_accepted)

theorem navigateTo_same_url_push_is_not_dropped_witness:
  "fetched (snd (navigateTo site about_page (location_href about_page) True))
     = [''https://example.org/about'', ''https://example.org/about'']
   \<and> ordinals (history_entries (snd (navigateTo site about_page (location_href about_page) True)))
     = [Some 0, Some 1, Some 2]
   \<and> map slot_url (history_entries (snd (navigateTo site about_page (location_href about_page) True)))
     = [''https://example.org/'', ''https://example.org/about'', ''https://example.org/about'']"
proof -
  have m: "mainContent about_page = Some 0" by (simp add: about_page_eq)
  have h: "location_href about_page = ''https://example.org/about''" by (simp add: about_page_eq)
  have f: "fetchPage site about_page (location_href about_page)
             = Inr ''<title>About</title><main>About</main>''"
    unfolding h by (rule site_fetch_about)
  have x: "extractContent site (config about_page) ''<title>About</title><main>About</main>''
             = Inr (''About'', ''About'')"
    by (rule site_extract_about) (simp add: about_page_eq)
  from navigateTo_same_url_push_is_not_dropped [OF m f x] show ?thesis
    by (simp add: about_page_eq ordinals_def)
qed

subsection \<open>A popstate event without state\<close>

text \<open>
  Claim C4 says that for a \<^verbatim>\<open>popstate\<close> event whose state is absent the controller
  delegates to \<^verbatim>\<open>navigateTo(window.location.href, false)\<close> and that this call fetches the
  current location and swaps the fetched content in. The delegation is line 182. The
  call, however, always meets the guard of line 122 (its URL is the location read at
  that moment, and \<^verbatim>\<open>pushState\<close> is false), so in every state and for every network
  \<^verbatim>\<open>handlePopState\<close> returns with the state untouched: nothing is requested and the
  content region keeps the markup of the page that was shown before the traversal.
\<close>

theorem handlePopState_without_state_does_nothing:
  "handlePopState e w None = (None, snd (navigateTo e w (location_href w) False))
   \<and> handlePopState e w None = (None, w)
   \<and> fetched (snd (handlePopState e w None)) = fetched w
   \<and> elements (snd (handlePopState e w None)) = elements w"
  by (simp add: handlePopState_def navigateTo_def)

subsection \<open>Clicks\<close>

text \<open>
  Claim C7. A clicked anchor is internal exactly when its \<^verbatim>\<open>host\<close> equals
  \<^verbatim>\<open>window.location.host\<close>; nothing else of the anchor is looked at. For an internal anchor
  \<^verbatim>\<open>handleClick\<close> prevents the default action and its effect and result are those of
  \<^verbatim>\<open>navigateTo(link.href, true)\<close>. For any other anchor the default action is left as it
  was, the anchor gets \<^verbatim>\<open>target = '_blank'\<close> and \<^verbatim>\<open>rel = 'noopener noreferrer'\<close>, and the state
  is unchanged.
\<close>

theorem handleClick_classifies_by_host:
  "isInternalLink w link = (a_host link = location_host w)
   \<and> (closest_a ev = Some link \<and> a_host link = location_host w \<longrightarrow>
        handleClick e w ev =
          (fst (navigateTo e w (a_href link) True),
           ev\<lparr>defaultPrevented := True\<rparr>,
           snd (navigateTo e w (a_href link) True)))
   \<and> (closest_a ev = Some link \<and> a_host link \<noteq> location_host w \<longrightarrow>
        handleClick e w ev =
          (None,
           ev\<lparr>closest_a := Some (link\<lparr>a_target := ''_blank'', a_rel := ''noopener noreferrer''\<rparr>)\<rparr>,
           w)
        \<and> defaultPrevented (fst (snd (handleClick e w ev))) = defaultPrevented ev)"
  by (simp add: handleClick_def isInternalLink_def Let_def)

theorem handleClick_classifies_by_host_witness:
  "handleClick site home (click_on about_link)
     = (None, \<lparr>closest_a = Some about_link, defaultPrevented = True\<rparr>, about_page)
   \<and> handleClick site home (click_on external_link)
     = (None,
        \<lparr>closest_a = Some \<lparr>a_host = ''elsewhere.net'', a_href = ''https://elsewhere.net/'',
                            a_target = ''_blank'', a_rel = ''noopener noreferrer''\<rparr>,
         defaultPrevented = False\<rparr>,
        home)"
proof -
  have i: "closest_a (click_on about_link) = Some about_link
           \<and> a_host about_link = location_host home"
    by (simp add: click_on_def about_link_def home_eq)
  have x: "closest_a (click_on external_link) = Some external_link
           \<and> a_host external_link \<noteq> location_host home"
    by (simp add: click_on_def external_link_def home_eq)
  have n: "navigateTo site home (a_href about_link) True = (None, about_page)"
    by (simp add: about_page_def about_link_def navigateTo_def navigateTo_try_def home_eq
        fetchPage_def extractContent_def push_entry_def history_pushState_def
        site_def site_fetch_def site_parse_def site_origin_def Let_def)
  from handleClick_classifies_by_host [of home about_link "click_on about_link" site]
       handleClick_classifies_by_host [of home external_link "click_on external_link" site]
       i x n
  show ?thesis
    by (simp add: click_on_def external_link_def)
qed

subsection \<open>Initialisation without a content region\<close>

lemma run_events_inert:
  assumes "popstateListeners w = 0" and "\<not> clickListener w" and "\<forall>a \<in> set acts. is_event a"
  shows "run e w acts = w"
  using assms
proof (induction acts)
  case Nil
  then show ?case by simp
next
  case (Cons a acts)
  from Cons.prems have "step e w a = w"
    by (cases a) (simp_all add: deliver_click_def)
  with Cons show ?case by simp
qed

text \<open>
  Claim C8. When no element matches the configured content selector, the constructor
  returns at line 60 (the model has no error value for it: none can be raised): it has
  only stored the configuration and the three references. No \<^verbatim>\<open>popstate\<close> or \<^verbatim>\<open>click\<close>
  listener is added, the history entries, the history position and the location are
  untouched, and, the class having no listener of its own, every later click and
  \<^verbatim>\<open>popstate\<close> event, alone or in any sequence, leaves the state as it is.
\<close>

theorem constructor_without_main_content_is_inert:
  assumes "querySelector e (mainContentSelector (merged_config arg)) = None"
  shows "LightSPA e arg w =
           w\<lparr>config := merged_config arg,
             mainContent := None,
             navigationElements := querySelectorAll e (navigationSelector (merged_config arg)),
             searchResults := getElementById e ''search-results''\<rparr>
     \<and> popstateListeners (LightSPA e arg w) = popstateListeners w
     \<and> clickListener (LightSPA e arg w) = clickListener w
     \<and> history_entries (LightSPA e arg w) = history_entries w
     \<and> history_position (LightSPA e arg w) = history_position w
     \<and> location_href (LightSPA e arg w) = location_href w
     \<and> (popstateListeners w = 0 \<and> \<not> clickListener w \<longrightarrow>
          (\<forall>ev. deliver_click e (LightSPA e arg w) ev = (ev, LightSPA e arg w))
          \<and> (\<forall>state. deliver_popstate (popstateListeners (LightSPA e arg w)) e
                        (LightSPA e arg w) state = LightSPA e arg w)
          \<and> (\<forall>acts. (\<forall>a \<in> set acts. is_event a) \<longrightarrow>
                 run e (LightSPA e arg w) acts = LightSPA e arg w))"
proof -
  have eq: "LightSPA e arg w =
           w\<lparr>config := merged_config arg,
             mainContent := None,
             navigationElements := querySelectorAll e (navigationSelector (merged_config arg)),
             searchResults := getElementById e ''search-results''\<rparr>"
    using assms by (simp add: LightSPA_def init_def Let_def)
  show ?thesis
    unfolding eq
    by (auto simp: deliver_click_def intro!: run_events_inert)
qed

theorem constructor_without_main_content_is_inert_witness:
  "querySelector site (mainContentSelector (merged_config no_match)) = None
   \<and> popstateListeners (LightSPA site no_match home_page) = 0
   \<and> \<not> clickListener (LightSPA site no_match home_page)
   \<and> history_entries (LightSPA site no_match home_page)
       = [\<lparr>slot_state = None, slot_url = ''https://example.org/''\<rparr>]
   \<and> run site (LightSPA site no_match home_page)
        [Click (click_on about_link), PopState None, Click (click_on external_link)]
       = LightSPA site no_match home_page"
proof -
  have q: "querySelector site (mainContentSelector (merged_config no_match)) = None"
    by (simp add: merged_config_def no_match_def site_def default_mainContentSelector_def)
  have l: "popstateListeners home_page = 0 \<and> \<not> clickListener home_page"
    by (simp add: home_page_def)
  have h: "history_entries home_page = [\<lparr>slot_state = None, slot_url = ''https://example.org/''\<rparr>]"
    by (simp add: home_page_def)
  have a: "\<forall>a \<in> set [Click (click_on about_link), PopState None, Click (click_on external_link)].
             is_event a"
    by simp
  note t = constructor_without_main_content_is_inert [OF q, of home_page]
  from t l a
  have r: "run site (LightSPA site no_match home_page)
             [Click (click_on about_link), PopState None, Click (click_on external_link)]
           = LightSPA site no_match home_page"
    by blast
  from t l h have "popstateListeners (LightSPA site no_match home_page) = 0
     \<and> \<not> clickListener (LightSPA site no_match home_page)
     \<and> history_entries (LightSPA site no_match home_page)
         = [\<lparr>slot_state = None, slot_url = ''https://example.org/''\<rparr>]"
    by metis
  with q r show ?thesis
    by blast
qed

subsection \<open>Traversal back to a cached entry\<close>

text \<open>The branch of line 203 when the cached markup is empty and the entry is the current
  location: the guard of line 122 stops it as well, and the content region keeps the
  markup of the page that was left.\<close>

lemma handlePopState_empty_content:
  "st_content st = [] \<Longrightarrow> st_url st = location_href w \<Longrightarrow>
   handlePopState e w (Some st) = (None, w\<lparr>currentIndex := st_index st\<rparr>)"
  by (simp add: handlePopState_def navigateTo_def)

text \<open>
  Claim C3 says that every content swap, a replay from the cache during traversal
  included, is followed by exactly one \<^verbatim>\<open>spaContentUpdated\<close> event. \<^verbatim>\<open>navigateTo\<close> does
  dispatch one (lines 167--170), but the cache branch of \<^verbatim>\<open>handlePopState\<close> (lines 190--199)
  returns without dispatching. On the small site: after the click on \<^verbatim>\<open>/about\<close> the region
  shows \<^verbatim>\<open>About\<close> and one event has been dispatched; after Back the region shows \<^verbatim>\<open>Home\<close>
  again and the list of dispatched events is still that one event.
\<close>

theorem cache_hit_replay_dispatches_no_event:
  "innerHTML (elements about_page 0) = ''About''
   \<and> innerHTML (elements (history_back site about_page) 0) = ''Home''
   \<and> document_title (history_back site about_page) = ''Home''
   \<and> dispatched (history_back site about_page) = dispatched about_page
   \<and> dispatched about_page
       = [\<lparr>detail_url = ''https://example.org/about'', detail_pushState = True\<rparr>]"
  by (simp add: about_page_eq eval_defs)

text \<open>
  Claim C2 says that after a forward navigation from A to B and one step back, content,
  title and scroll position are what was live at A just before leaving, without any
  request. On the small site the user scrolls the home page to \<open>(0, 250)\<close> and clicks on
  \<^verbatim>\<open>/about\<close>; after Back the markup and the title are those of the home page and nothing
  was requested, but the scroll position is \<open>(0, 0)\<close>, the one stored when the entry was
  written (line 74), not the \<open>(0, 250)\<close> that was live: no code path updates
  \<^verbatim>\<open>scrollPosition\<close> of an entry when the page is left.
\<close>

theorem round_trip_loses_scroll_position:
  "innerHTML (elements scrolled_home 0) = ''Home''
   \<and> document_title scrolled_home = ''Home''
   \<and> scroll scrolled_home = (0, 250)
   \<and> location_href scrolled_about = ''https://example.org/about''
   \<and> innerHTML (elements (history_back site scrolled_about) 0) = ''Home''
   \<and> document_title (history_back site scrolled_about) = ''Home''
   \<and> location_href (history_back site scrolled_about) = ''https://example.org/''
   \<and> fetched (history_back site scrolled_about) = fetched scrolled_about
   \<and> scroll (history_back site scrolled_about) = (0, 0)"
  by (simp add: scrolled_about_eq scrolled_home_def home_eq about_page_eq eval_defs)

subsection \<open>The reference to the content region\<close>

lemma frame_at_refl [simp]: "frame_at k w w"
  by (simp add: frame_at_def)

lemma frame_at_trans: "frame_at k w w' \<Longrightarrow> frame_at k w' w'' \<Longrightarrow> frame_at k w w''"
  by (auto simp: frame_at_def)

lemma frame_at_unchanged:
  "frame_at k w w' \<Longrightarrow> mainContent w \<noteq> Some k \<Longrightarrow> searchResults w \<noteq> Some k \<Longrightarrow>
   elements w' k = elements w k"
  by (auto simp: frame_at_def intro: element.equality)

lemma push_entry_frame_at: "frame_at k w (snd (push_entry e m u w))"
  by (simp add: frame_at_def)

lemma catch_frame_at:
  "mainContent w = Some m \<Longrightarrow> frame_at k w w' \<Longrightarrow> frame_at k w (set_opacity m v w')"
  by (cases "k = m") (auto simp: frame_at_def)

lemma navigateTo_try_frame_at: "frame_at k w (snd (navigateTo_try e w u p))"
proof (cases "mainContent w")
  case None
  then show ?thesis by (simp add: navigateTo_try_def)
next
  case (Some m)
  let ?w2 = "(set_opacity m ''0.5'' w)\<lparr>fetched := fetched w @ [u]\<rparr>"
  have f2: "frame_at k w ?w2"
    using Some by (cases "k = m") (auto simp: frame_at_def)
  show ?thesis
  proof (cases "fetchPage e w u")
    case (Inl err)
    with Some f2 show ?thesis by (simp add: navigateTo_try_def Let_def)
  next
    case (Inr html)
    show ?thesis
    proof (cases "extractContent e (config w) html")
      case (Inl err)
      with Some Inr f2 show ?thesis by (simp add: navigateTo_try_def Let_def)
    next
      case ex: (Inr r)
      obtain markup t where r: "r = (markup, t)" by (cases r)
      let ?w4 = "(set_innerHTML m markup ?w2)\<lparr>document_title := t\<rparr>"
      let ?r = "if p then push_entry e m u ?w4 else (None, ?w4)"
      have f4: "frame_at k w ?w4"
        using Some by (cases "k = m") (auto simp: frame_at_def)
      have "frame_at k ?w4 (snd ?r)"
        by (simp add: push_entry_frame_at)
      with f4 have f5: "frame_at k w (snd ?r)"
        by (rule frame_at_trans)
      have m5: "mainContent (snd ?r) = Some m" "searchResults (snd ?r) = searchResults w"
        using Some by simp_all
      have f7: "frame_at k w (initializeEventListeners (set_opacity m ''1'' (snd ?r)))"
        using f5 Some m5
        by (cases "k = m"; cases "searchResults w = Some k")
           (auto simp: frame_at_def initializeEventListeners_def set_opacity_def
             split: option.splits)
      have res: "snd (navigateTo_try e w u p) =
          (case fst ?r of
             Some err \<Rightarrow> snd ?r
           | None \<Rightarrow> (initializeEventListeners (set_opacity m ''1'' (snd ?r)))
               \<lparr>dispatched := dispatched (initializeEventListeners (set_opacity m ''1'' (snd ?r)))
                    @ [\<lparr>detail_url = u, detail_pushState = p\<rparr>]\<rparr>)"
        using Some Inr ex r
        by (simp add: navigateTo_try_def Let_def split: prod.splits option.splits)
      show ?thesis
        unfolding res using f5 f7
        by (auto simp: frame_at_def split: option.splits)
    qed
  qed
qed

lemma navigateTo_frame_at: "frame_at k w (snd (navigateTo e w u p))"
proof -
  note t = navigateTo_try_frame_at [of k w e u p]
  then have m: "mainContent (snd (navigateTo_try e w u p)) = mainContent w"
    by (simp add: frame_at_def)
  show ?thesis
  proof (cases "navigateTo_try e w u p")
    case (Pair r w')
    with t m show ?thesis
      by (cases r; cases "mainContent w")
         (auto simp: navigateTo_def intro: catch_frame_at)
  qed
qed

lemma handlePopState_frame_at: "frame_at k w (snd (handlePopState e w state))"
proof (cases state)
  case None
  then show ?thesis by (simp add: handlePopState_def navigateTo_frame_at)
next
  case (Some st)
  let ?w1 = "w\<lparr>currentIndex := st_index st\<rparr>"
  have f1: "frame_at k w ?w1" by (simp add: frame_at_def)
  show ?thesis
  proof (cases "st_content st = []")
    case True
    have "frame_at k ?w1 (snd (navigateTo e ?w1 (st_url st) False))"
      by (rule navigateTo_frame_at)
    with f1 have "frame_at k w (snd (navigateTo e ?w1 (st_url st) False))"
      by (rule frame_at_trans)
    with Some True show ?thesis by (simp add: handlePopState_def)
  next
    case False
    with Some show ?thesis
      by (cases "mainContent w"; cases "k = the (mainContent w)")
         (auto simp: handlePopState_def frame_at_def window_scrollTo_def Let_def
           split: option.splits prod.splits)
  qed
qed

lemma handleClick_frame_at: "frame_at k w (snd (snd (handleClick e w ev)))"
  by (auto simp: handleClick_def Let_def navigateTo_frame_at split: option.splits)

lemma deliver_popstate_frame_at: "frame_at k w (deliver_popstate n e w state)"
proof (induction n arbitrary: w)
  case 0
  show ?case by simp
next
  case (Suc n)
  have "frame_at k w (snd (handlePopState e w state))"
    by (rule handlePopState_frame_at)
  then show ?case
    using Suc.IH [of "snd (handlePopState e w state)"] by (auto intro: frame_at_trans)
qed

lemma history_back_frame_at: "frame_at k w (history_back e w)"
proof (cases "0 < history_position w \<and> history_position w < length (history_entries w)")
  case False
  then have "history_back e w = w" by (auto simp: history_back_def)
  then show ?thesis by simp
next
  case True
  let ?slot = "history_entries w ! (history_position w - 1)"
  let ?w1 = "w\<lparr>history_position := history_position w - 1, location_href := slot_url ?slot\<rparr>"
  have "frame_at k w ?w1" by (simp add: frame_at_def)
  moreover have "frame_at k ?w1 (deliver_popstate (popstateListeners ?w1) e ?w1 (slot_state ?slot))"
    by (rule deliver_popstate_frame_at)
  ultimately have "frame_at k w (deliver_popstate (popstateListeners ?w1) e ?w1 (slot_state ?slot))"
    by (rule frame_at_trans)
  with True show ?thesis by (simp add: history_back_def Let_def)
qed

lemma step_frame_at: "frame_at k w (step e w a)"
proof (cases a)
  case (Click ev)
  then show ?thesis by (simp add: deliver_click_def handleClick_frame_at)
next
  case (PopState state)
  then show ?thesis by (simp add: deliver_popstate_frame_at)
next
  case (Navigate u p)
  then show ?thesis by (simp add: navigateTo_frame_at)
next
  case (Scroll p)
  then show ?thesis by (simp add: user_scroll_def frame_at_def)
next
  case Back
  then show ?thesis by (simp add: history_back_frame_at)
qed

lemma run_frame_at: "frame_at k w (run e w acts)"
proof (induction acts arbitrary: w)
  case Nil
  show ?case by simp
next
  case (Cons a acts)
  have "frame_at k w (step e w a)" by (rule step_frame_at)
  then show ?case
    using Cons.IH [of "step e w a"] by (auto intro: frame_at_trans)
qed

lemma init_mainContent:
  "mainContent (init e w) = querySelector e (mainContentSelector (config w))"
  by (simp add: init_def history_replaceState_def Let_def split: option.splits)

lemma init_elements: "elements (init e w) = elements w"
  by (simp add: init_def history_replaceState_def Let_def split: option.splits)

text \<open>
  Claim C9. The field \<^verbatim>\<open>mainContent\<close> is assigned by the constructor (line 55, the result
  of \<^verbatim>\<open>document.querySelector\<close> for the configured selector), which leaves every element
  as it is, and by nothing else. After each of \<^verbatim>\<open>navigateTo\<close> (forward navigation and
  fallback fetch), \<^verbatim>\<open>handlePopState\<close> (replay from the cache), \<^verbatim>\<open>handleClick\<close>, and after
  every sequence of clicks, \<^verbatim>\<open>popstate\<close> events, direct navigations, scrolls and Back
  steps, the reference is the one before, and the elements have changed only in this:
  the markup and the opacity of the element the reference points to (lines 128, 144,
  161, 172, 191, 193) and \<^verbatim>\<open>dataset.spaInitialized\<close> of the search-results element
  (line 85). What is attached to an element, the content region included, is unchanged;
  an element that is neither the content region nor the search-results element is
  unchanged altogether.
\<close>

theorem mainContent_reference_is_never_replaced:
  "mainContent (LightSPA e arg w0) = querySelector e (mainContentSelector (merged_config arg))
   \<and> elements (LightSPA e arg w0) = elements w0
   \<and> (\<forall>w' \<in> {snd (navigateTo e w u p), snd (handlePopState e w state),
               snd (snd (handleClick e w ev)), run e w acts}.
        mainContent w' = mainContent w
        \<and> (\<forall>k. attached (elements w' k) = attached (elements w k))
        \<and> (\<forall>k. mainContent w \<noteq> Some k \<longrightarrow>
               innerHTML (elements w' k) = innerHTML (elements w k)
               \<and> style_opacity (elements w' k) = style_opacity (elements w k))
        \<and> (\<forall>k. searchResults w \<noteq> Some k \<longrightarrow>
               dataset_spaInitialized (elements w' k) = dataset_spaInitialized (elements w k))
        \<and> (\<forall>k. mainContent w \<noteq> Some k \<and> searchResults w \<noteq> Some k \<longrightarrow>
               elements w' k = elements w k))"
  (is "?A \<and> ?B \<and> (\<forall>w' \<in> ?S. ?F w')")
proof -
  have A: ?A by (simp add: LightSPA_def init_mainContent)
  have B: ?B by (simp add: LightSPA_def init_elements)
  have C: "\<forall>w' \<in> ?S. ?F w'"
  proof
  fix w' assume "w' \<in> ?S"
  then have f: "frame_at k w w'" for k
    using navigateTo_frame_at [of k w e u p] handlePopState_frame_at [of k w e state]
      handleClick_frame_at [of k w e ev] run_frame_at [of k w e acts]
    by auto
  have a: "mainContent w' = mainContent w"
    using f [of 0] by (simp add: frame_at_def)
  have b: "attached (elements w' k) = attached (elements w k)" for k
    using f [of k] by (simp add: frame_at_def)
  have c: "innerHTML (elements w' k) = innerHTML (elements w k)
        \<and> style_opacity (elements w' k) = style_opacity (elements w k)"
    if "mainContent w \<noteq> Some k" for k
    using f [of k] that by (simp add: frame_at_def)
  have d: "dataset_spaInitialized (elements w' k) = dataset_spaInitialized (elements w k)"
    if "searchResults w \<noteq> Some k" for k
    using f [of k] that by (simp add: frame_at_def)
  have g: "elements w' k = elements w k"
    if "mainContent w \<noteq> Some k \<and> searchResults w \<noteq> Some k" for k
    using frame_at_unchanged [OF f [of k]] that by simp
  from a b c d g show "?F w'"
    by blast
  qed
  show ?thesis
    by (rule conjI [OF A conjI [OF B C]])
qed

theorem mainContent_reference_is_never_replaced_witness:
  "mainContent (run site home [Click (click_on about_link), Scroll (0, 40), Back]) = Some 0
   \<and> attached (elements (run site home [Click (click_on about_link), Scroll (0, 40), Back]) 0)
       = [''swipe-listener'']
   \<and> elements (run site home [Click (click_on about_link), Scroll (0, 40), Back]) 1
       = elements home 1
   \<and> innerHTML (elements home 1) = ''Sidebar''"
proof -
  let ?acts = "[Click (click_on about_link), Scroll (0, 40), Back]"
  have m: "mainContent home = Some 0" "searchResults home = None"
    "attached (elements home 0) = [''swipe-listener'']" "innerHTML (elements home 1) = ''Sidebar''"
    by (simp_all add: home_eq)
  have "run site home ?acts
      \<in> {snd (navigateTo site home [] False), snd (handlePopState site home None),
         snd (snd (handleClick site home (click_on about_link))), run site home ?acts}"
    by blast
  with mainContent_reference_is_never_replaced
         [of site defaults home_page home "[]" False None "click_on about_link" ?acts]
  have "mainContent (run site home ?acts) = mainContent home
      \<and> (\<forall>k. attached (elements (run site home ?acts) k) = attached (elements home k))
      \<and> (\<forall>k. mainContent home \<noteq> Some k \<and> searchResults home \<noteq> Some k \<longrightarrow>
             elements (run site home ?acts) k = elements home k)"
    by blast
  with m show ?thesis
    by (simp del: run.simps)
qed

subsection \<open>Ordinals\<close>

lemma navigateTo_no_push_currentIndex [simp]:
  "currentIndex (snd (navigateTo e w u False)) = currentIndex w"
  by (auto simp: navigateTo_def navigateTo_try_def Let_def
      split: option.splits sum.splits prod.splits)



lemma ordinals_simps [simp]:
  "length (ordinals xs) = length xs"
  "ordinals (xs @ ys) = ordinals xs @ ordinals ys"
  "ordinals (take n xs) = take n (ordinals xs)"
  "ordinals (drop n xs) = drop n (ordinals xs)"
  by (simp_all add: ordinals_def take_map drop_map)









text \<open>A push that is refused between two navigations. On the small site the link
  \<^verbatim>\<open>http://example.org/about\<close> is internal (same host) but of another origin: the click
  swaps the content and increments \<^verbatim>\<open>currentIndex\<close>, and pushes nothing and dispatches
  nothing; it is not a successful navigation. The next successful navigation then pushes
  an entry with ordinal 2.\<close>

lemma refused_push_on_site:
  "isInternalLink home http_link
   \<and> \<not> nav_succeeds site home (a_href http_link) True
   \<and> innerHTML (elements (snd (snd (handleClick site home (click_on http_link)))) 0) = ''About''
   \<and> currentIndex (snd (snd (handleClick site home (click_on http_link)))) = 1
   \<and> history_entries (snd (snd (handleClick site home (click_on http_link)))) = history_entries home
   \<and> dispatched (snd (snd (handleClick site home (click_on http_link)))) = []
   \<and> ordinals (history_entries
        (run site home [Click (click_on http_link), Click (click_on about_link)]))
       = [Some 0, Some 2]"
  by (simp add: home_eq eval_defs http_link_def nav_succeeds_def ordinals_def)

end
